theory Spec2Isabelle
  imports Main
begin

section \<open>Values of the embedding\<close>

text \<open>
  The module \<^verbatim>\<open>src/src/image-upload.js\<close> (class \<^verbatim>\<open>ImageUpload\<close>, the variant with
  drop and paste support) is a chain of callbacks around four external collaborators: the host
  editor (Quill), \<^verbatim>\<open>XMLHttpRequest\<close>, \<^verbatim>\<open>FileReader\<close> and the functions the
  configuration supplies. The embedding keeps the module's own control flow as HOL functions.
  The host editor is a parameter (a record of its three operations over an arbitrary editor
  state); every other external call is appended to a trace of effects; every handler the module
  registers is a function of the model that is run when the platform fires it.
\<close>

subsection \<open>JSON values and \<^verbatim>\<open>JSON.parse\<close>\<close>

text \<open>
  The value \<^verbatim>\<open>JSON.parse\<close> returns for a text. Building it (decoding the escapes of a
  string, rounding a number to a double, keeping the last of a repeated key) is the platform's
  work, and the module hands the value on without reading it: the value is kept as the text it
  was parsed from, \<open>JSON s\<close> for \<^verbatim>\<open>JSON.parse(s)\<close>. What is modelled in full is which texts
  parse.
\<close>

datatype json = JSON string

definition is_ws :: "char \<Rightarrow> bool" where
  "is_ws c = (c = CHR '' '' \<or> c = CHR 0x09 \<or> c = CHR 0x0A \<or> c = CHR 0x0D)"

definition is_digit :: "char \<Rightarrow> bool" where
  "is_digit c = (c \<in> set ''0123456789'')"

definition is_hex :: "char \<Rightarrow> bool" where
  "is_hex c = (c \<in> set ''0123456789abcdefABCDEF'')"

definition skip_ws :: "string \<Rightarrow> string" where
  "skip_ws s = dropWhile is_ws s"

text \<open>
  Each function below reads one piece of the grammar from the front of a text and returns the
  rest of the text, or \<open>None\<close> when the piece is not there.

  The characters of a string literal after the opening quote, up to the closing one.
\<close>

fun parse_chars :: "string \<Rightarrow> string option" where
  "parse_chars [] = None"
| "parse_chars (c # cs) =
     (if c = CHR 0x22 then Some cs
      else if c = CHR 0x5C then
        (case cs of
           [] \<Rightarrow> None
         | e # es \<Rightarrow>
             if e \<in> set [CHR 0x22, CHR 0x5C, CHR ''/'', CHR ''b'', CHR ''f'', CHR ''n'', CHR ''r'', CHR ''t'']
             then parse_chars es
             else if e = CHR ''u'' \<and> 4 \<le> length es \<and> list_all is_hex (take 4 es)
             then parse_chars (drop 4 es)
             else None)
      else if of_char c < (0x20 :: nat) then None
      else parse_chars cs)"

text \<open>
  A number: \<^verbatim>\<open>-? (0 | [1-9][0-9]*) (. [0-9]+)? ([eE] [+-]? [0-9]+)?\<close>.
\<close>

definition parse_int_part :: "string \<Rightarrow> string option" where
  "parse_int_part s =
     (case s of
        [] \<Rightarrow> None
      | c # cs \<Rightarrow>
          if c = CHR ''0'' then Some cs
          else if is_digit c then Some (dropWhile is_digit cs)
          else None)"

definition parse_frac_part :: "string \<Rightarrow> string option" where
  "parse_frac_part s =
     (case s of
        c # d # cs \<Rightarrow>
          if c = CHR ''.'' then
            (if is_digit d then Some (dropWhile is_digit cs) else None)
          else Some s
      | _ \<Rightarrow> (if s = ''.'' then None else Some s))"

definition parse_digits1 :: "string \<Rightarrow> string option" where
  "parse_digits1 s =
     (case s of
        [] \<Rightarrow> None
      | d # cs \<Rightarrow> if is_digit d then Some (dropWhile is_digit cs) else None)"

definition parse_exp_part :: "string \<Rightarrow> string option" where
  "parse_exp_part s =
     (case s of
        [] \<Rightarrow> Some s
      | c # cs \<Rightarrow>
          if c = CHR ''e'' \<or> c = CHR ''E'' then
            (case cs of
               [] \<Rightarrow> None
             | g # gs \<Rightarrow>
                 if g = CHR ''+'' \<or> g = CHR ''-'' then parse_digits1 gs else parse_digits1 cs)
          else Some s)"

definition parse_number :: "string \<Rightarrow> string option" where
  "parse_number s =
     (let s1 = (case s of c # cs \<Rightarrow> if c = CHR ''-'' then cs else s | [] \<Rightarrow> s)
      in case parse_int_part s1 of
           None \<Rightarrow> None
         | Some s2 \<Rightarrow>
             (case parse_frac_part s2 of
                None \<Rightarrow> None
              | Some s3 \<Rightarrow> parse_exp_part s3))"

definition parse_literal :: "string \<Rightarrow> string \<Rightarrow> string option" where
  "parse_literal lit s =
     (if take (length lit) s = lit then Some (drop (length lit) s) else None)"

text \<open>
  Recursive descent over values, array elements and object members. The first argument bounds
  the depth of the recursion. Of any two nested calls at least one has read a character (only
  the step from the elements of an array to its first value reads none), so the depth stays
  below twice the length of the text plus two, where \<open>JSON_parse\<close> starts it.
\<close>

fun parse_value :: "nat \<Rightarrow> string \<Rightarrow> string option"
  and parse_elements :: "nat \<Rightarrow> string \<Rightarrow> string option"
  and parse_members :: "nat \<Rightarrow> string \<Rightarrow> string option"
where
  "parse_value 0 s = None"
| "parse_value (Suc n) s =
     (case skip_ws s of
        [] \<Rightarrow> None
      | c # cs \<Rightarrow>
          if c = CHR ''n'' then parse_literal ''null'' (c # cs)
          else if c = CHR ''t'' then parse_literal ''true'' (c # cs)
          else if c = CHR ''f'' then parse_literal ''false'' (c # cs)
          else if c = CHR 0x22 then parse_chars cs
          else if c = CHR ''['' then
            (case skip_ws cs of
               [] \<Rightarrow> None
             | d # ds \<Rightarrow> if d = CHR '']'' then Some ds else parse_elements n cs)
          else if c = CHR ''{'' then
            (case skip_ws cs of
               [] \<Rightarrow> None
             | d # ds \<Rightarrow> if d = CHR ''}'' then Some ds else parse_members n cs)
          else parse_number (c # cs))"
| "parse_elements 0 s = None"
| "parse_elements (Suc n) s =
     (case parse_value n s of
        None \<Rightarrow> None
      | Some r \<Rightarrow>
          (case skip_ws r of
             [] \<Rightarrow> None
           | d # ds \<Rightarrow>
               if d = CHR '']'' then Some ds
               else if d = CHR '','' then parse_elements n ds
               else None))"
| "parse_members 0 s = None"
| "parse_members (Suc n) s =
     (case skip_ws s of
        [] \<Rightarrow> None
      | q # qs \<Rightarrow>
          if q \<noteq> CHR 0x22 then None
          else
            (case parse_chars qs of
               None \<Rightarrow> None
             | Some r \<Rightarrow>
                 (case skip_ws r of
                    [] \<Rightarrow> None
                  | col # r1 \<Rightarrow>
                      if col \<noteq> CHR '':'' then None
                      else
                        (case parse_value n r1 of
                           None \<Rightarrow> None
                         | Some r2 \<Rightarrow>
                             (case skip_ws r2 of
                                [] \<Rightarrow> None
                              | d # ds \<Rightarrow>
                                  if d = CHR ''}'' then Some ds
                                  else if d = CHR '','' then parse_members n ds
                                  else None)))))"

text \<open>
  \<^verbatim>\<open>JSON.parse(text)\<close>: the value of the text when the whole text is one JSON value
  between white space; \<open>None\<close> is the \<^verbatim>\<open>SyntaxError\<close> the platform throws on any other
  text.
\<close>

definition JSON_parse :: "string \<Rightarrow> json option" where
  "JSON_parse s =
     (case parse_value (2 * length s + 2) s of
        None \<Rightarrow> None
      | Some r \<Rightarrow> if skip_ws r = [] then Some (JSON s) else None)"

subsection \<open>Files, clipboard items and the values handed between callbacks\<close>

text \<open>A \<^verbatim>\<open>File\<close> (a \<^verbatim>\<open>Blob\<close>): its name, its MIME type and its bytes.\<close>

record jsfile =
  file_name :: string
  file_type :: string
  file_bytes :: string

text \<open>
  An element of the list \<^verbatim>\<open>readFiles\<close> walks: a \<^verbatim>\<open>File\<close> of
  \<^verbatim>\<open>evt.dataTransfer.files\<close>, or a \<^verbatim>\<open>DataTransferItem\<close> of
  \<^verbatim>\<open>evt.clipboardData.items\<close> with its \<^verbatim>\<open>type\<close> and the result of its
  \<^verbatim>\<open>getAsFile()\<close> (\<^verbatim>\<open>null\<close> for an item that is not a file).
\<close>

datatype entry =
    File jsfile
  | DataTransferItem string "jsfile option"

fun entry_type :: "entry \<Rightarrow> string" where
  "entry_type (File f) = file_type f"
| "entry_type (DataTransferItem t g) = t"

text \<open>
  \<^verbatim>\<open>const blob = file.getAsFile ? file.getAsFile() : file\<close>, with \<open>None\<close> when the
  result is not an instance of \<^verbatim>\<open>Blob\<close>.
\<close>

fun blob_of :: "entry \<Rightarrow> jsfile option" where
  "blob_of (File f) = Some f"
| "blob_of (DataTransferItem t g) = g"

text \<open>
  The values that travel through the callback chain: a string (a data URI), a parsed server
  response, a file or clipboard item, and the error object \<^verbatim>\<open>{code, type, body}\<close>.
\<close>

datatype jsval =
    Str string
  | Parsed json
  | Entry entry
  | ErrorObj nat string string

text \<open>
  The functions the module creates and hands to other code as a continuation:
  \<^verbatim>\<open>this.sendToServer.bind(this)\<close>, \<^verbatim>\<open>this.insert.bind(this)\<close>, the arrow function
  \<^verbatim>\<open>dataUrl => { this.insert(dataUrl) }\<close> given to the custom uploader, and the arrow
  function \<^verbatim>\<open>handlePaste\<close> gives to \<^verbatim>\<open>readFiles\<close>.
\<close>

datatype continuation = SendToServer | Insert | UploaderNext | PasteCallback

text \<open>The function given to \<^verbatim>\<open>setTimeout\<close>: \<^verbatim>\<open>() => this.sendToServer(dataUrl)\<close>.\<close>

datatype thunk = DeferredSend jsval

text \<open>
  The two handlers assigned to \<^verbatim>\<open>reader.onload\<close>: the one of \<^verbatim>\<open>sendToServer\<close>
  (no endpoint configured) and the one of \<^verbatim>\<open>readFiles\<close>, which closes over the entry
  and the callback.
\<close>

datatype onload_handler = OnloadSuccess | OnloadCheck entry continuation

datatype arg = Val jsval | Fn continuation

text \<open>A function supplied by the configuration, known by its name only.\<close>

datatype userfn = UserFn string

datatype hook = CustomUploader | CheckBeforeSend | CallbackOK | CallbackKO

text \<open>
  The calls that leave the module. \<open>Call h f args\<close> is a call of the overridable callback
  \<open>h\<close>: of the configured function \<open>f\<close>, or of the module's own default method when \<open>f\<close>
  is \<open>None\<close> (the effects of the default method follow it in the trace). What a configured
  function does is not part of the module.
\<close>

datatype effect =
    ConsoleWarn string
  | Alert jsval
  | Call hook "userfn option" "arg list"
  | InputClick
  | XhrOpen string string bool
  | XhrSetRequestHeader string string
  | XhrWithCredentials
  | XhrSend "(string \<times> jsval) list"
  | ReadAsDataURL jsfile onload_handler
  | SetTimeout thunk nat
  | PreventDefault
  | SetBaseAndExtent nat nat
  | InsertEmbed nat string jsval string

datatype exn = SyntaxError | TypeError

subsection \<open>The host editor and the configuration\<close>

text \<open>A Quill range, \<^verbatim>\<open>{index, length}\<close>.\<close>

record range =
  range_index :: nat
  range_length :: nat

text \<open>
  What the module consumes from the host editor, over an editor state \<open>'q\<close> of the host's
  choosing: \<^verbatim>\<open>getSelection()\<close> (\<open>None\<close> is \<^verbatim>\<open>null\<close>), \<^verbatim>\<open>getLength()\<close> and
  \<^verbatim>\<open>insertEmbed(index, type, value, source)\<close>.
\<close>

record 'q Quill =
  getSelection :: "'q \<Rightarrow> range option"
  getLength :: "'q \<Rightarrow> nat"
  insertEmbed :: "nat \<Rightarrow> string \<Rightarrow> jsval \<Rightarrow> string \<Rightarrow> 'q \<Rightarrow> 'q"

text \<open>
  The options object; \<open>None\<close> is an option that is not given. \<open>http_method\<close> is the
  option \<^verbatim>\<open>method\<close>.
\<close>

record options =
  url :: "string option"
  http_method :: "string option"
  name :: "string option"
  withCredentials :: "bool option"
  headers :: "(string \<times> string) list option"
  csrf :: "(string \<times> string) option"
  customUploader :: "userfn option"
  callbackOK :: "userfn option"
  callbackKO :: "userfn option"
  checkBeforeSend :: "userfn option"

record 'q ImageUpload =
  quill :: "'q Quill"
  options :: options

record 'q world =
  editor :: 'q
  trace :: "effect list"

definition emit :: "effect \<Rightarrow> 'q world \<Rightarrow> 'q world" where
  "emit e w = w\<lparr>trace := trace w @ [e]\<rparr>"

text \<open>
  The result of running a handler: \<open>Inr\<close> the world it leaves when it returns, \<open>Inl\<close> the
  exception it threw and the world at the throw.
\<close>

type_synonym 'q result = "exn \<times> 'q world + 'q world"

definition world_of :: "'q result \<Rightarrow> 'q world" where
  "world_of r = (case r of Inl (e, w') \<Rightarrow> w' | Inr w' \<Rightarrow> w')"

text \<open>The effects a handler added to the trace.\<close>

definition new_effects :: "'q world \<Rightarrow> 'q result \<Rightarrow> effect list" where
  "new_effects w r = drop (length (trace w)) (trace (world_of r))"

text \<open>Kinds of effects.\<close>

fun is_call :: "hook \<Rightarrow> effect \<Rightarrow> bool" where
  "is_call h (Call h' f args) = (h = h')"
| "is_call h e = False"

fun is_network :: "effect \<Rightarrow> bool" where
  "is_network (XhrOpen m u a) = True"
| "is_network (XhrSetRequestHeader k v) = True"
| "is_network XhrWithCredentials = True"
| "is_network (XhrSend fd) = True"
| "is_network e = False"

fun is_read :: "effect \<Rightarrow> bool" where
  "is_read (ReadAsDataURL b h) = True"
| "is_read e = False"

fun is_embed :: "effect \<Rightarrow> bool" where
  "is_embed (InsertEmbed i t v s) = True"
| "is_embed e = False"

text \<open>JavaScript's \<^verbatim>\<open>s || d\<close> for a string that may be undefined: the empty string is falsy.\<close>

definition truthy :: "string option \<Rightarrow> bool" where
  "truthy x = (case x of None \<Rightarrow> False | Some s \<Rightarrow> s \<noteq> [])"

definition or_default :: "string option \<Rightarrow> string \<Rightarrow> string" where
  "or_default x d = (if truthy x then the x else d)"

text \<open>\<^verbatim>\<open>/^image\//.test(type)\<close>\<close>

definition is_image :: "string \<Rightarrow> bool" where
  "is_image t = (take 6 t = ''image/'')"

section \<open>The methods of \<^verbatim>\<open>ImageUpload\<close>\<close>

text \<open>
  \<^verbatim>\<open>insert(dataUrl)\<close>: the index is
  \<^verbatim>\<open>(this.quill.getSelection() || {}).index || this.quill.getLength()\<close>, so a missing
  selection and an index that is falsy both fall through to the length.
\<close>

definition insert_index :: "'q ImageUpload \<Rightarrow> 'q \<Rightarrow> nat" where
  "insert_index this q =
     (case getSelection (quill this) q of
        None \<Rightarrow> getLength (quill this) q
      | Some r \<Rightarrow> if range_index r \<noteq> 0 then range_index r else getLength (quill this) q)"

definition insert_image :: "'q ImageUpload \<Rightarrow> jsval \<Rightarrow> 'q world \<Rightarrow> 'q world" where
  "insert_image this dataUrl w =
     (let index = insert_index this (editor w)
      in emit (InsertEmbed index ''image'' dataUrl ''user'')
           (w\<lparr>editor := insertEmbed (quill this) index ''image'' dataUrl ''user'' (editor w)\<rparr>))"

text \<open>\<^verbatim>\<open>uploadImageCallbackKO(error)\<close>\<close>

definition uploadImageCallbackKO :: "'q ImageUpload \<Rightarrow> jsval \<Rightarrow> 'q world \<Rightarrow> 'q world" where
  "uploadImageCallbackKO this error w = emit (Alert error) w"

text \<open>
  \<^verbatim>\<open>sendToServer(file)\<close>, up to the point where it returns: the custom uploader is called,
  or the request is sent, or the file reader is started. \<^verbatim>\<open>FormData.append\<close> takes any
  value (the platform turns one that is not a \<^verbatim>\<open>Blob\<close> into a string);
  \<^verbatim>\<open>readAsDataURL\<close> throws a \<^verbatim>\<open>TypeError\<close> on a value that is not a \<^verbatim>\<open>Blob\<close>.
\<close>

definition sendToServer :: "'q ImageUpload \<Rightarrow> jsval \<Rightarrow> 'q world \<Rightarrow> 'q result" where
  "sendToServer this file w =
     (case customUploader (options this) of
        Some uploader \<Rightarrow>
          Inr (emit (Call CustomUploader (Some uploader) [Val file, Fn UploaderNext]) w)
      | None \<Rightarrow>
          (let method' = or_default (http_method (options this)) ''POST'';
               name' = or_default (name (options this)) ''image'';
               headers' = (case headers (options this) of None \<Rightarrow> [] | Some h \<Rightarrow> h)
           in if truthy (url (options this)) then
                (let fd = [(name', file)];
                     fd' = (case csrf (options this) of
                              None \<Rightarrow> fd
                            | Some (token, hash) \<Rightarrow> fd @ [(token, Str hash)]);
                     w1 = emit (XhrOpen method' (the (url (options this))) True) w;
                     w2 = fold (\<lambda>(index, v). emit (XhrSetRequestHeader index v)) headers' w1;
                     w3 = (if withCredentials (options this) = Some True
                           then emit XhrWithCredentials w2 else w2)
                 in Inr (emit (XhrSend fd') w3))
              else
                (case file of
                   Entry (File f) \<Rightarrow> Inr (emit (ReadAsDataURL f OnloadSuccess) w)
                 | _ \<Rightarrow> Inl (TypeError, w))))"

text \<open>
  The callback of \<^verbatim>\<open>handlePaste\<close>: with a selection it does nothing, without one it
  schedules \<^verbatim>\<open>this.sendToServer(dataUrl)\<close> with \<^verbatim>\<open>setTimeout(..., 0)\<close>.
\<close>

definition pasteCallback :: "'q ImageUpload \<Rightarrow> jsval \<Rightarrow> 'q world \<Rightarrow> 'q world" where
  "pasteCallback this dataUrl w =
     (case getSelection (quill this) (editor w) of
        Some selection \<Rightarrow> w
      | None \<Rightarrow> emit (SetTimeout (DeferredSend dataUrl) 0) w)"

text \<open>What the module does when a continuation it handed out is called with a value.\<close>

fun call :: "'q ImageUpload \<Rightarrow> continuation \<Rightarrow> jsval \<Rightarrow> 'q world \<Rightarrow> 'q result" where
  "call this SendToServer v w = sendToServer this v w"
| "call this Insert v w = Inr (insert_image this v w)"
| "call this UploaderNext v w = Inr (insert_image this v w)"
| "call this PasteCallback v w = Inr (pasteCallback this v w)"


text \<open>The default methods \<^verbatim>\<open>checkBeforeSend(file, next)\<close> and
  \<^verbatim>\<open>uploadImageCallbackOK(response, next)\<close>.\<close>

definition checkBeforeSend_default ::
  "'q ImageUpload \<Rightarrow> jsval \<Rightarrow> continuation \<Rightarrow> 'q world \<Rightarrow> 'q result" where
  "checkBeforeSend_default this file next w = call this next file w"

definition uploadImageCallbackOK ::
  "'q ImageUpload \<Rightarrow> jsval \<Rightarrow> continuation \<Rightarrow> 'q world \<Rightarrow> 'q result" where
  "uploadImageCallbackOK this response next w = call this next response w"

text \<open>
  \<^verbatim>\<open>const checkBeforeSend = this.options.checkBeforeSend || this.checkBeforeSend.bind(this);
  checkBeforeSend(file, next)\<close>, and the same for \<^verbatim>\<open>callbackOK\<close> and \<^verbatim>\<open>callbackKO\<close>.
\<close>

definition checkBeforeSend_resolved ::
  "'q ImageUpload \<Rightarrow> jsval \<Rightarrow> continuation \<Rightarrow> 'q world \<Rightarrow> 'q result" where
  "checkBeforeSend_resolved this file next w =
     (let w1 = emit (Call CheckBeforeSend (checkBeforeSend (options this)) [Val file, Fn next]) w
      in case checkBeforeSend (options this) of
           Some f \<Rightarrow> Inr w1
         | None \<Rightarrow> checkBeforeSend_default this file next w1)"

definition callbackOK_resolved ::
  "'q ImageUpload \<Rightarrow> jsval \<Rightarrow> continuation \<Rightarrow> 'q world \<Rightarrow> 'q result" where
  "callbackOK_resolved this response next w =
     (let w1 = emit (Call CallbackOK (callbackOK (options this)) [Val response, Fn next]) w
      in case callbackOK (options this) of
           Some f \<Rightarrow> Inr w1
         | None \<Rightarrow> uploadImageCallbackOK this response next w1)"

definition callbackKO_resolved :: "'q ImageUpload \<Rightarrow> jsval \<Rightarrow> 'q world \<Rightarrow> 'q world" where
  "callbackKO_resolved this error w =
     (let w1 = emit (Call CallbackKO (callbackKO (options this)) [Val error]) w
      in case callbackKO (options this) of
           Some f \<Rightarrow> w1
         | None \<Rightarrow> uploadImageCallbackKO this error w1)"

text \<open>
  The handler \<^verbatim>\<open>sendToServer\<close> assigns to \<^verbatim>\<open>xhr.onload\<close>, run on the state of the
  request when it has loaded.
\<close>

record xhr =
  status :: nat
  statusText :: string
  responseText :: string

definition xhr_onload :: "'q ImageUpload \<Rightarrow> xhr \<Rightarrow> 'q world \<Rightarrow> 'q result" where
  "xhr_onload this x w =
     (if status x = 200 then
        (case JSON_parse (responseText x) of
           None \<Rightarrow> Inl (SyntaxError, w)
         | Some v \<Rightarrow> callbackOK_resolved this (Parsed v) Insert w)
      else
        Inr (callbackKO_resolved this (ErrorObj (status x) (statusText x) (responseText x)) w))"

text \<open>
  The handlers assigned to \<^verbatim>\<open>reader.onload\<close>, run on \<^verbatim>\<open>event.target.result\<close>. The one
  of \<^verbatim>\<open>readFiles\<close> does not read its event.
\<close>

fun reader_onload ::
  "'q ImageUpload \<Rightarrow> onload_handler \<Rightarrow> string \<Rightarrow> 'q world \<Rightarrow> 'q result" where
  "reader_onload this OnloadSuccess result w = callbackOK_resolved this (Str result) Insert w"
| "reader_onload this (OnloadCheck file callback) result w =
     checkBeforeSend_resolved this (Entry file) callback w"

text \<open>\<^verbatim>\<open>readFiles(files, callback)\<close>\<close>

definition readFiles ::
  "'q ImageUpload \<Rightarrow> entry list \<Rightarrow> continuation \<Rightarrow> 'q world \<Rightarrow> 'q world" where
  "readFiles this files callback w =
     fold (\<lambda>file w.
             if \<not> is_image (entry_type file) then w
             else
               (case blob_of file of
                  Some blob \<Rightarrow> emit (ReadAsDataURL blob (OnloadCheck file callback)) w
                | None \<Rightarrow> w))
          files w"

text \<open>
  \<^verbatim>\<open>handleDrop(evt)\<close>. \<open>drop_files\<close> is \<^verbatim>\<open>evt.dataTransfer.files\<close> (\<open>None\<close> when
  \<^verbatim>\<open>dataTransfer\<close> or \<^verbatim>\<open>files\<close> is missing); \<open>drop_caret\<close> is the start container and
  offset of \<^verbatim>\<open>document.caretRangeFromPoint(evt.clientX, evt.clientY)\<close>, \<open>None\<close> when the
  function does not exist or it or \<^verbatim>\<open>document.getSelection()\<close> gives \<^verbatim>\<open>null\<close>.
\<close>

record drop_event =
  drop_files :: "entry list option"
  drop_caret :: "(nat \<times> nat) option"

definition handleDrop :: "'q ImageUpload \<Rightarrow> drop_event \<Rightarrow> 'q world \<Rightarrow> 'q world" where
  "handleDrop this evt w =
     (let w1 = emit PreventDefault w
      in case drop_files evt of
           None \<Rightarrow> w1
         | Some files \<Rightarrow>
             if files = [] then w1
             else
               (let w2 = (case drop_caret evt of
                            None \<Rightarrow> w1
                          | Some (container, offset) \<Rightarrow> emit (SetBaseAndExtent container offset) w1)
                in readFiles this files SendToServer w2))"



text \<open>
  \<^verbatim>\<open>selectLocalImage()\<close> creates a file input and clicks it; \<open>input_onchange\<close> is the
  handler it assigns to \<^verbatim>\<open>input.onchange\<close>, run on \<^verbatim>\<open>input.files\<close>. With no file,
  \<^verbatim>\<open>input.files[0]\<close> is undefined and reading its \<^verbatim>\<open>type\<close> throws.
\<close>

definition selectLocalImage :: "'q ImageUpload \<Rightarrow> 'q world \<Rightarrow> 'q world" where
  "selectLocalImage this w = emit InputClick w"

definition input_onchange :: "'q ImageUpload \<Rightarrow> jsfile list \<Rightarrow> 'q world \<Rightarrow> 'q result" where
  "input_onchange this files w =
     (case files of
        [] \<Rightarrow> Inl (TypeError, w)
      | file # rest \<Rightarrow>
          if is_image (file_type file)
          then checkBeforeSend_resolved this (Entry (File file)) SendToServer w
          else Inr (emit (ConsoleWarn ''You could only upload images.'') w))"

subsection \<open>A host editor for the examples\<close>

text \<open>
  The smallest editor that answers the three operations: it holds a selection and a length,
  and an embed adds one to the length.
\<close>

record editor_state =
  sel :: "range option"
  len :: nat

definition simple_quill :: "editor_state Quill" where
  "simple_quill =
     \<lparr>getSelection = sel, getLength = len,
      insertEmbed = (\<lambda>index type v source q. q\<lparr>len := len q + 1\<rparr>)\<rparr>"

definition no_options :: options where
  "no_options =
     \<lparr>url = None, http_method = None, name = None, withCredentials = None, headers = None,
      csrf = None, customUploader = None, callbackOK = None, callbackKO = None,
      checkBeforeSend = None\<rparr>"

definition png :: jsfile where
  "png = \<lparr>file_name = ''a.png'', file_type = ''image/png'', file_bytes = ''PNG''\<rparr>"

definition readme :: jsfile where
  "readme = \<lparr>file_name = ''a.txt'', file_type = ''text/plain'', file_bytes = ''hello''\<rparr>"

definition start :: "range option \<Rightarrow> nat \<Rightarrow> editor_state world" where
  "start s n = \<lparr>editor = \<lparr>sel = s, len = n\<rparr>, trace = []\<rparr>"

definition is_builtin :: "effect \<Rightarrow> bool" where
  "is_builtin e = (is_network e \<or> is_read e)"

definition demo :: "options \<Rightarrow> editor_state ImageUpload" where
  "demo opts = \<lparr>quill = simple_quill, options = opts\<rparr>"

section \<open>Properties\<close>

subsection \<open>The trace of each method\<close>

lemma trace_emit: "trace (emit e w) = trace w @ [e]"
  by (simp add: emit_def)

lemma editor_emit: "editor (emit e w) = editor w"
  by (simp add: emit_def)

lemma trace_insert_image:
  "trace (insert_image this d w) = trace w @ [InsertEmbed (insert_index this (editor w)) ''image'' d ''user'']"
  by (simp add: insert_image_def Let_def trace_emit)

lemma editor_insert_image:
  "editor (insert_image this d w) =
     insertEmbed (quill this) (insert_index this (editor w)) ''image'' d ''user'' (editor w)"
  by (simp add: insert_image_def Let_def editor_emit)

lemma emit_update: "emit e w = w\<lparr>trace := trace w @ [e]\<rparr>"
  by (simp add: emit_def)

lemma set_headers_update:
  "fold (\<lambda>(index, v). emit (XhrSetRequestHeader index v)) hs w =
     w\<lparr>trace := trace w @ map (\<lambda>(index, v). XhrSetRequestHeader index v) hs\<rparr>"
  by (induction hs arbitrary: w) (auto simp: emit_def)

lemma headers_network [simp]:
  "list_all is_network (map (\<lambda>(index, v). XhrSetRequestHeader index v) hs)"
  by (induction hs) auto

lemma headers_no_call [simp]:
  "filter (is_call h) (map (\<lambda>(index, v). XhrSetRequestHeader index v) hs) = []"
  by (induction hs) auto

lemma sendToServer_custom:
  assumes "customUploader (options this) = Some u"
  shows "sendToServer this file w =
           Inr (emit (Call CustomUploader (Some u) [Val file, Fn UploaderNext]) w)"
  using assms by (simp add: sendToServer_def)

lemma sendToServer_request:
  assumes "customUploader (options this) = None" and "truthy (url (options this))"
  shows "sendToServer this file w =
           Inr (w\<lparr>trace := trace w @
             XhrOpen (or_default (http_method (options this)) ''POST'') (the (url (options this))) True #
             map (\<lambda>(index, v). XhrSetRequestHeader index v)
               (case headers (options this) of None \<Rightarrow> [] | Some h \<Rightarrow> h) @
             (if withCredentials (options this) = Some True then [XhrWithCredentials] else []) @
             [XhrSend ((or_default (name (options this)) ''image'', file) #
                (case csrf (options this) of None \<Rightarrow> [] | Some (token, hash) \<Rightarrow> [(token, Str hash)]))]\<rparr>)"
  using assms
  by (simp add: sendToServer_def Let_def emit_update set_headers_update split: option.splits)

lemma sendToServer_read:
  assumes "customUploader (options this) = None" and "\<not> truthy (url (options this))"
  shows "sendToServer this file w =
           (case file of
              Entry (File f) \<Rightarrow> Inr (emit (ReadAsDataURL f OnloadSuccess) w)
            | _ \<Rightarrow> Inl (TypeError, w))"
  using assms by (simp add: sendToServer_def Let_def)

lemma callbackOK_resolved_Insert:
  "callbackOK_resolved this v Insert w =
     Inr (case callbackOK (options this) of
            Some g \<Rightarrow> emit (Call CallbackOK (Some g) [Val v, Fn Insert]) w
          | None \<Rightarrow> insert_image this v (emit (Call CallbackOK None [Val v, Fn Insert]) w))"
  by (simp add: callbackOK_resolved_def uploadImageCallbackOK_def Let_def split: option.splits)

lemma new_effects_callbackOK:
  "new_effects w (callbackOK_resolved this v Insert w) =
     Call CallbackOK (callbackOK (options this)) [Val v, Fn Insert] #
     (case callbackOK (options this) of
        Some g \<Rightarrow> []
      | None \<Rightarrow> [InsertEmbed (insert_index this (editor w)) ''image'' v ''user''])"
  by (simp add: callbackOK_resolved_Insert new_effects_def world_of_def trace_emit
      trace_insert_image editor_emit split: option.splits)

lemma new_effects_callbackKO:
  "new_effects w (Inr (callbackKO_resolved this v w)) =
     Call CallbackKO (callbackKO (options this)) [Val v] #
     (case callbackKO (options this) of Some g \<Rightarrow> [] | None \<Rightarrow> [Alert v])"
  by (simp add: callbackKO_resolved_def uploadImageCallbackKO_def Let_def new_effects_def
      world_of_def trace_emit split: option.splits)

lemma xhr_onload_ok:
  assumes "status x = 200" and "JSON_parse (responseText x) = Some v"
  shows "xhr_onload this x w = callbackOK_resolved this (Parsed v) Insert w"
  using assms by (simp add: xhr_onload_def)

lemma xhr_onload_throw:
  assumes "status x = 200" and "JSON_parse (responseText x) = None"
  shows "xhr_onload this x w = Inl (SyntaxError, w)"
  using assms by (simp add: xhr_onload_def)

lemma xhr_onload_ko:
  assumes "status x \<noteq> 200"
  shows "xhr_onload this x w =
           Inr (callbackKO_resolved this (ErrorObj (status x) (statusText x) (responseText x)) w)"
  using assms by (simp add: xhr_onload_def)

lemma not_json_html: "JSON_parse ''<html>'' = None"
  by code_simp

lemma not_json_empty: "JSON_parse '''' = None"
  by code_simp

lemma not_json_plain: "JSON_parse ''Created'' = None"
  by code_simp

lemma json_url: "JSON_parse ''{\"url\":\"http://x/img.png\"}'' = Some (JSON ''{\"url\":\"http://x/img.png\"}'')"
  by code_simp

lemma readFiles_update:
  "readFiles this files cb w =
     w\<lparr>trace := trace w @
        map (\<lambda>file. ReadAsDataURL (the (blob_of file)) (OnloadCheck file cb))
          (filter (\<lambda>file. is_image (entry_type file) \<and> blob_of file \<noteq> None) files)\<rparr>"
  unfolding readFiles_def
  by (induction files arbitrary: w) (auto simp: emit_def split: option.splits)

lemma call_extends: "\<exists>es. trace (world_of (call this k v w)) = trace w @ es"
proof (cases k)
  case SendToServer
  show ?thesis
  proof (cases "customUploader (options this)")
    case (Some u)
    then show ?thesis
      by (simp add: SendToServer sendToServer_custom world_of_def trace_emit)
  next
    case None
    show ?thesis
    proof (cases "truthy (url (options this))")
      case True
      show ?thesis
        by (simp add: SendToServer sendToServer_request [OF None True] world_of_def)
    next
      case False
      show ?thesis
        by (simp add: SendToServer sendToServer_read [OF None False] world_of_def trace_emit
            split: jsval.splits entry.splits)
    qed
  qed
next
  case Insert
  then show ?thesis by (simp add: world_of_def trace_insert_image)
next
  case UploaderNext
  then show ?thesis by (simp add: world_of_def trace_insert_image)
next
  case PasteCallback
  then show ?thesis
    by (simp add: world_of_def pasteCallback_def trace_emit split: option.splits)
qed

lemma checkBeforeSend_resolved_eq:
  "checkBeforeSend_resolved this v k w =
     (case checkBeforeSend (options this) of
        Some g \<Rightarrow> Inr (emit (Call CheckBeforeSend (Some g) [Val v, Fn k]) w)
      | None \<Rightarrow> call this k v (emit (Call CheckBeforeSend None [Val v, Fn k]) w))"
  by (simp add: checkBeforeSend_resolved_def checkBeforeSend_default_def Let_def
      split: option.splits)

lemma checkBeforeSend_first:
  "take 1 (new_effects w (checkBeforeSend_resolved this v k w)) =
     [Call CheckBeforeSend (checkBeforeSend (options this)) [Val v, Fn k]]"
proof (cases "checkBeforeSend (options this)")
  case None
  obtain es where "trace (world_of (call this k v (emit (Call CheckBeforeSend None [Val v, Fn k]) w))) =
      trace (emit (Call CheckBeforeSend None [Val v, Fn k]) w) @ es"
    using call_extends by blast
  with None show ?thesis
    by (simp add: checkBeforeSend_resolved_eq new_effects_def trace_emit)
next
  case (Some g)
  then show ?thesis
    by (simp add: checkBeforeSend_resolved_eq new_effects_def world_of_def trace_emit)
qed

subsection \<open>Custom uploader or built-in path\<close>

text \<open>
  C1. \<^verbatim>\<open>sendToServer\<close> takes exactly one of its two paths. With a custom uploader
  configured, whatever the endpoint, it calls the uploader with the file and the continuation
  that inserts, and adds no request and no file read. Without one, it never calls a custom
  uploader and leaves the editor untouched, and what it does is the built-in path in full:
  with an endpoint it opens the request, sets the headers and the credentials flag and sends
  the form holding the value it was given; with no endpoint it starts the read of the file it
  was given, and for a value that is not a \<^verbatim>\<open>Blob\<close> the file reader throws.
\<close>

theorem sendToServer_one_path:
  "(customUploader (options this) = Some u \<longrightarrow>
      sendToServer this file w =
        Inr (emit (Call CustomUploader (Some u) [Val file, Fn UploaderNext]) w)
      \<and> filter is_builtin (new_effects w (sendToServer this file w)) = []
      \<and> call this UploaderNext dataUrl w' = Inr (insert_image this dataUrl w'))
   \<and> (customUploader (options this) = None \<longrightarrow>
      filter (is_call CustomUploader) (new_effects w (sendToServer this file w)) = []
      \<and> editor (world_of (sendToServer this file w)) = editor w
      \<and> (truthy (url (options this)) \<longrightarrow>
           sendToServer this file w =
             Inr (w\<lparr>trace := trace w @
               XhrOpen (or_default (http_method (options this)) ''POST'') (the (url (options this))) True #
               map (\<lambda>(index, v). XhrSetRequestHeader index v)
                 (case headers (options this) of None \<Rightarrow> [] | Some h \<Rightarrow> h) @
               (if withCredentials (options this) = Some True then [XhrWithCredentials] else []) @
               [XhrSend ((or_default (name (options this)) ''image'', file) #
                  (case csrf (options this) of
                     None \<Rightarrow> []
                   | Some (token, hash) \<Rightarrow> [(token, Str hash)]))]\<rparr>))
      \<and> (\<not> truthy (url (options this)) \<longrightarrow>
           sendToServer this file w =
             (case file of
                Entry (File f) \<Rightarrow> Inr (emit (ReadAsDataURL f OnloadSuccess) w)
              | _ \<Rightarrow> Inl (TypeError, w)))
      \<and> (case sendToServer this file w of
            Inl (e, w') \<Rightarrow> e = TypeError \<and> \<not> truthy (url (options this)) \<and> w' = w
          | Inr w' \<Rightarrow> new_effects w (Inr w') \<noteq> [] \<and> list_all is_builtin (new_effects w (Inr w'))))"
proof (intro conjI impI)
  assume u: "customUploader (options this) = Some u"
  show "sendToServer this file w =
        Inr (emit (Call CustomUploader (Some u) [Val file, Fn UploaderNext]) w)"
    by (rule sendToServer_custom [OF u])
  then show "filter is_builtin (new_effects w (sendToServer this file w)) = []"
    by (simp add: new_effects_def world_of_def trace_emit is_builtin_def)
  show "call this UploaderNext dataUrl w' = Inr (insert_image this dataUrl w')"
    by simp
next
  assume n: "customUploader (options this) = None"
  show "filter (is_call CustomUploader) (new_effects w (sendToServer this file w)) = []"
  proof (cases "truthy (url (options this))")
    case True
    show ?thesis
      by (simp add: sendToServer_request [OF n True] new_effects_def world_of_def)
  next
    case False
    show ?thesis
      by (simp add: sendToServer_read [OF n False] new_effects_def world_of_def trace_emit
          split: jsval.splits entry.splits)
  qed
next
  assume n: "customUploader (options this) = None"
  show "editor (world_of (sendToServer this file w)) = editor w"
  proof (cases "truthy (url (options this))")
    case True
    show ?thesis
      by (simp add: sendToServer_request [OF n True] world_of_def)
  next
    case False
    show ?thesis
      by (simp add: sendToServer_read [OF n False] world_of_def editor_emit
          split: jsval.splits entry.splits)
  qed
next
  assume n: "customUploader (options this) = None" and t: "truthy (url (options this))"
  show "sendToServer this file w =
             Inr (w\<lparr>trace := trace w @
               XhrOpen (or_default (http_method (options this)) ''POST'') (the (url (options this))) True #
               map (\<lambda>(index, v). XhrSetRequestHeader index v)
                 (case headers (options this) of None \<Rightarrow> [] | Some h \<Rightarrow> h) @
               (if withCredentials (options this) = Some True then [XhrWithCredentials] else []) @
               [XhrSend ((or_default (name (options this)) ''image'', file) #
                  (case csrf (options this) of
                     None \<Rightarrow> []
                   | Some (token, hash) \<Rightarrow> [(token, Str hash)]))]\<rparr>)"
    by (rule sendToServer_request [OF n t])
next
  assume n: "customUploader (options this) = None" and f: "\<not> truthy (url (options this))"
  show "sendToServer this file w =
             (case file of
                Entry (File f) \<Rightarrow> Inr (emit (ReadAsDataURL f OnloadSuccess) w)
              | _ \<Rightarrow> Inl (TypeError, w))"
    by (rule sendToServer_read [OF n f])
next
  assume n: "customUploader (options this) = None"
  show "case sendToServer this file w of
       Inl (e, w') \<Rightarrow> e = TypeError \<and> \<not> truthy (url (options this)) \<and> w' = w
     | Inr w' \<Rightarrow> new_effects w (Inr w') \<noteq> [] \<and> list_all is_builtin (new_effects w (Inr w'))"
  proof (cases "truthy (url (options this))")
    case True
    have "list_all is_builtin (map (\<lambda>(index, v). XhrSetRequestHeader index v) hs)" for hs
      by (induction hs) (auto simp: is_builtin_def)
    then show ?thesis
      by (simp add: sendToServer_request [OF n True] new_effects_def world_of_def is_builtin_def)
  next
    case False
    show ?thesis
      using False
      by (simp add: sendToServer_read [OF n False] new_effects_def world_of_def trace_emit
          is_builtin_def split: jsval.splits entry.splits)
  qed
qed

theorem sendToServer_one_path_witness:
  "sendToServer (demo (no_options\<lparr>url := Some ''/upload'', customUploader := Some (UserFn ''upload'')\<rparr>))
     (Entry (File png)) (start None 1) =
     Inr \<lparr>editor = \<lparr>sel = None, len = 1\<rparr>,
          trace = [Call CustomUploader (Some (UserFn ''upload'')) [Val (Entry (File png)), Fn UploaderNext]]\<rparr>
   \<and> sendToServer (demo (no_options\<lparr>url := Some ''/upload''\<rparr>)) (Entry (File png)) (start None 1) =
     Inr \<lparr>editor = \<lparr>sel = None, len = 1\<rparr>,
          trace = [XhrOpen ''POST'' ''/upload'' True, XhrSend [(''image'', Entry (File png))]]\<rparr>
   \<and> sendToServer (demo no_options) (Entry (File png)) (start None 1) =
     Inr \<lparr>editor = \<lparr>sel = None, len = 1\<rparr>, trace = [ReadAsDataURL png OnloadSuccess]\<rparr>
   \<and> sendToServer (demo no_options) (Str ''data:,x'') (start None 1) = Inl (TypeError, start None 1)"
proof -
  let ?U = "demo (no_options\<lparr>url := Some ''/upload'', customUploader := Some (UserFn ''upload'')\<rparr>)"
  let ?R = "demo (no_options\<lparr>url := Some ''/upload''\<rparr>)"
  let ?B = "demo no_options"
  let ?W = "start None 1"
  have a: "customUploader (options ?U) = Some (UserFn ''upload'')"
    by (simp add: demo_def no_options_def)
  have b: "customUploader (options ?R) = None" "truthy (url (options ?R))"
    by (simp_all add: demo_def no_options_def truthy_def)
  have c: "customUploader (options ?B) = None" "\<not> truthy (url (options ?B))"
    by (simp_all add: demo_def no_options_def truthy_def)
  from sendToServer_one_path [of ?U "UserFn ''upload''" "Entry (File png)" ?W] a
  have 1: "sendToServer ?U (Entry (File png)) ?W =
      Inr (emit (Call CustomUploader (Some (UserFn ''upload'')) [Val (Entry (File png)), Fn UploaderNext]) ?W)"
    by blast
  from sendToServer_one_path [of ?R _ "Entry (File png)" ?W] b
  have 2: "sendToServer ?R (Entry (File png)) ?W =
      Inr (?W\<lparr>trace := trace ?W @
               XhrOpen (or_default (http_method (options ?R)) ''POST'') (the (url (options ?R))) True #
               map (\<lambda>(index, v). XhrSetRequestHeader index v)
                 (case headers (options ?R) of None \<Rightarrow> [] | Some h \<Rightarrow> h) @
               (if withCredentials (options ?R) = Some True then [XhrWithCredentials] else []) @
               [XhrSend ((or_default (name (options ?R)) ''image'', Entry (File png)) #
                  (case csrf (options ?R) of
                     None \<Rightarrow> []
                   | Some (token, hash) \<Rightarrow> [(token, Str hash)]))]\<rparr>)"
    by blast
  from sendToServer_one_path [of ?B _ "Entry (File png)" ?W] c
  have 3: "sendToServer ?B (Entry (File png)) ?W =
      (case Entry (File png) of
         Entry (File f) \<Rightarrow> Inr (emit (ReadAsDataURL f OnloadSuccess) ?W)
       | _ \<Rightarrow> Inl (TypeError, ?W))"
    by blast
  from sendToServer_one_path [of ?B _ "Str ''data:,x''" ?W] c
  have 4: "sendToServer ?B (Str ''data:,x'') ?W =
      (case Str ''data:,x'' of
         Entry (File f) \<Rightarrow> Inr (emit (ReadAsDataURL f OnloadSuccess) ?W)
       | _ \<Rightarrow> Inl (TypeError, ?W))"
    by blast
  have o: "options ?R = no_options\<lparr>url := Some ''/upload''\<rparr>"
    by (simp add: demo_def)
  show ?thesis
    unfolding 1 2 3 4 o
    by (simp add: emit_def start_def no_options_def or_default_def truthy_def)
qed

subsection \<open>Where the image is inserted\<close>

text \<open>
  The index \<^verbatim>\<open>insert\<close> uses: the index of the selection when there is one and its index is
  not zero, the length of the document otherwise.
\<close>

lemma insert_index_selection:
  "insert_index this q =
     (case getSelection (quill this) q of
        None \<Rightarrow> getLength (quill this) q
      | Some r \<Rightarrow> if range_index r = 0 then getLength (quill this) q else range_index r)"
  by (simp add: insert_index_def split: option.splits)

text \<open>
  C2. The claim is that \<^verbatim>\<open>insert\<close> embeds at the index of the selection whenever there is
  a selection, a selection at index 0 included. With the selection at index 0 in a document of
  length 5, the embed goes to index 5, the end of the document.
\<close>

theorem insert_at_selection_zero:
  "trace (insert_image (demo no_options) (Str ''data:image/png;base64,UE5H'')
            (start (Some \<lparr>range_index = 0, range_length = 0\<rparr>) 5)) =
     [InsertEmbed 5 ''image'' (Str ''data:image/png;base64,UE5H'') ''user'']"
  by (simp add: insert_image_def insert_index_def demo_def simple_quill_def start_def emit_def)

text \<open>
  C9. \<^verbatim>\<open>insert\<close> keeps nothing between calls. Each call makes one embed, at the index
  computed from the selection and the length the editor has at that call; a second call with the
  same data URI, after any change \<open>between\<close> to the world, makes its own embed from the state it
  finds; and two editor states that answer \<^verbatim>\<open>getSelection\<close> and \<^verbatim>\<open>getLength\<close> alike
  give the same index.
\<close>

theorem insert_image_stateless:
  "trace (insert_image this d w) =
     trace w @ [InsertEmbed (insert_index this (editor w)) ''image'' d ''user'']
   \<and> editor (insert_image this d w) =
       insertEmbed (quill this) (insert_index this (editor w)) ''image'' d ''user'' (editor w)
   \<and> trace (insert_image this d (between (insert_image this d w))) =
       trace (between (insert_image this d w)) @
       [InsertEmbed (insert_index this (editor (between (insert_image this d w)))) ''image'' d ''user'']
   \<and> (getSelection (quill this) q = getSelection (quill this) q' \<longrightarrow>
       getLength (quill this) q = getLength (quill this) q' \<longrightarrow>
       insert_index this q = insert_index this q')"
  by (auto simp: trace_insert_image editor_insert_image insert_index_def split: option.splits)

theorem insert_image_stateless_witness:
  "trace (insert_image (demo no_options) (Str ''data:,x'')
      ((\<lambda>w. w\<lparr>editor := (editor w)\<lparr>sel := Some \<lparr>range_index = 7, range_length = 0\<rparr>\<rparr>\<rparr>)
         (insert_image (demo no_options) (Str ''data:,x'')
            (start (Some \<lparr>range_index = 2, range_length = 0\<rparr>) 10)))) =
     [InsertEmbed 2 ''image'' (Str ''data:,x'') ''user'',
      InsertEmbed 7 ''image'' (Str ''data:,x'') ''user'']
   \<and> insert_index (demo no_options) \<lparr>sel = None, len = 4\<rparr> = 4"
proof -
  let ?W = "start (Some \<lparr>range_index = 2, range_length = 0\<rparr>) 10"
  let ?B = "\<lambda>w :: editor_state world.
              w\<lparr>editor := (editor w)\<lparr>sel := Some \<lparr>range_index = 7, range_length = 0\<rparr>\<rparr>\<rparr>"
  let ?d = "Str ''data:,x''"
  have i: "insert_index (demo no_options) q =
             (case sel q of None \<Rightarrow> len q | Some r \<Rightarrow> if range_index r \<noteq> 0 then range_index r else len q)"
    for q
    by (simp add: insert_index_def demo_def simple_quill_def split: option.splits)
  note t = insert_image_stateless [of "demo no_options" ?d ?W ?B
      "\<lparr>sel = None, len = 4\<rparr>" "\<lparr>sel = None, len = 4\<rparr>"]
  from t have 1: "trace (insert_image (demo no_options) ?d ?W) =
      trace ?W @ [InsertEmbed (insert_index (demo no_options) (editor ?W)) ''image'' ?d ''user'']"
    by blast
  from t have 2: "trace (insert_image (demo no_options) ?d (?B (insert_image (demo no_options) ?d ?W))) =
      trace (?B (insert_image (demo no_options) ?d ?W)) @
      [InsertEmbed (insert_index (demo no_options) (editor (?B (insert_image (demo no_options) ?d ?W))))
         ''image'' ?d ''user'']"
    by blast
  have 3: "trace (?B (insert_image (demo no_options) ?d ?W)) = trace (insert_image (demo no_options) ?d ?W)"
    by simp
  have 4: "insert_index (demo no_options) (editor (?B (insert_image (demo no_options) ?d ?W))) = 7"
    by (simp add: i)
  have 5: "insert_index (demo no_options) (editor ?W) = 2"
    by (simp add: i start_def)
  have 6: "trace ?W = []"
    by (simp add: start_def)
  show ?thesis
    unfolding 2 3 4 1 5 6 by (simp add: i)
qed

subsection \<open>No endpoint and no custom uploader\<close>

text \<open>
  C3. With neither an endpoint nor a custom uploader, \<^verbatim>\<open>sendToServer\<close> of a file only starts
  a read of that file as a data URL: no request is opened or sent. When the read has loaded, its
  result goes to the success callback together with the continuation that inserts; the default
  success callback inserts it.
\<close>

theorem sendToServer_base64:
  assumes "customUploader (options this) = None" and "\<not> truthy (url (options this))"
  shows "sendToServer this (Entry (File f)) w = Inr (emit (ReadAsDataURL f OnloadSuccess) w)
    \<and> filter is_network (new_effects w (sendToServer this (Entry (File f)) w)) = []
    \<and> new_effects w' (reader_onload this OnloadSuccess result w') =
        Call CallbackOK (callbackOK (options this)) [Val (Str result), Fn Insert] #
        (case callbackOK (options this) of
           Some g \<Rightarrow> []
         | None \<Rightarrow> [InsertEmbed (insert_index this (editor w')) ''image'' (Str result) ''user''])
    \<and> call this Insert v w'' = Inr (insert_image this v w'')"
proof -
  have send: "sendToServer this (Entry (File f)) w = Inr (emit (ReadAsDataURL f OnloadSuccess) w)"
    by (simp add: sendToServer_read [OF assms])
  have "filter is_network (new_effects w (sendToServer this (Entry (File f)) w)) = []"
    by (simp add: send new_effects_def world_of_def trace_emit)
  with send show ?thesis
    by (simp add: new_effects_callbackOK)
qed

theorem sendToServer_base64_witness:
  "sendToServer (demo no_options) (Entry (File png)) (start None 1) =
     Inr \<lparr>editor = \<lparr>sel = None, len = 1\<rparr>, trace = [ReadAsDataURL png OnloadSuccess]\<rparr>
   \<and> new_effects (start None 1)
        (reader_onload (demo no_options) OnloadSuccess ''data:image/png;base64,UE5H'' (start None 1)) =
      [Call CallbackOK None [Val (Str ''data:image/png;base64,UE5H''), Fn Insert],
       InsertEmbed 1 ''image'' (Str ''data:image/png;base64,UE5H'') ''user'']"
proof -
  have a: "customUploader (options (demo no_options)) = None"
    by (simp add: demo_def no_options_def)
  have b: "\<not> truthy (url (options (demo no_options)))"
    by (simp add: demo_def no_options_def truthy_def)
  have c: "callbackOK (options (demo no_options)) = None"
    by (simp add: demo_def no_options_def)
  have d: "insert_index (demo no_options) (editor (start None 1)) = 1"
    by (simp add: insert_index_def demo_def simple_quill_def start_def)
  note t = sendToServer_base64 [OF a b, of png "start None 1" "start None 1"
      "''data:image/png;base64,UE5H''"]
  from t have 1: "sendToServer (demo no_options) (Entry (File png)) (start None 1) =
      Inr (emit (ReadAsDataURL png OnloadSuccess) (start None 1))"
    by blast
  from t have 2: "new_effects (start None 1)
        (reader_onload (demo no_options) OnloadSuccess ''data:image/png;base64,UE5H'' (start None 1)) =
      Call CallbackOK (callbackOK (options (demo no_options)))
        [Val (Str ''data:image/png;base64,UE5H''), Fn Insert] #
      (case callbackOK (options (demo no_options)) of
         Some g \<Rightarrow> []
       | None \<Rightarrow> [InsertEmbed (insert_index (demo no_options) (editor (start None 1))) ''image''
                    (Str ''data:image/png;base64,UE5H'') ''user''])"
    by blast
  show ?thesis
    unfolding 1 2 c d by (simp add: emit_def start_def)
qed

subsection \<open>The response of the built-in request\<close>

text \<open>
  C4. The claim is that the success callback is called exactly when the status is 200. A
  response with status 200 whose body is not JSON is a counterexample: \<^verbatim>\<open>JSON.parse\<close>
  throws before the success callback is reached.
\<close>

theorem xhr_onload_200_html:
  "status \<lparr>status = 200, statusText = ''OK'', responseText = ''<html>''\<rparr> = 200
   \<and> xhr_onload (demo (no_options\<lparr>callbackOK := Some (UserFn ''ok''), callbackKO := Some (UserFn ''ko'')\<rparr>))
        \<lparr>status = 200, statusText = ''OK'', responseText = ''<html>''\<rparr> (start None 1) =
      Inl (SyntaxError, start None 1)
   \<and> filter (is_call CallbackOK) (new_effects (start None 1)
        (xhr_onload (demo (no_options\<lparr>callbackOK := Some (UserFn ''ok''), callbackKO := Some (UserFn ''ko'')\<rparr>))
           \<lparr>status = 200, statusText = ''OK'', responseText = ''<html>''\<rparr> (start None 1))) = []"
  by (simp add: xhr_onload_def not_json_html new_effects_def world_of_def)

text \<open>
  C4, as the code has it. The success callback is called exactly when the status is 200 and the
  body parses as JSON; it then gets the parsed body and the continuation that inserts. On every
  other status the failure callback gets the object made of the status, the status text and the
  body. On status 200 with a body that does not parse, the handler throws the
  \<^verbatim>\<open>SyntaxError\<close> and has done nothing: neither callback is called. The default callbacks
  insert the parsed body and alert the error. The last two parts give the whole outcome of
  the handler in the two cases where it returns.
\<close>

theorem xhr_onload_callbacks:
  "(filter (is_call CallbackOK) (new_effects w (xhr_onload this x w)) \<noteq> [] \<longleftrightarrow>
      status x = 200 \<and> JSON_parse (responseText x) \<noteq> None)
   \<and> (status x = 200 \<longrightarrow> JSON_parse (responseText x) = Some v \<longrightarrow>
        new_effects w (xhr_onload this x w) =
          Call CallbackOK (callbackOK (options this)) [Val (Parsed v), Fn Insert] #
          (case callbackOK (options this) of
             Some g \<Rightarrow> []
           | None \<Rightarrow> [InsertEmbed (insert_index this (editor w)) ''image'' (Parsed v) ''user'']))
   \<and> (status x \<noteq> 200 \<longrightarrow>
        new_effects w (xhr_onload this x w) =
          Call CallbackKO (callbackKO (options this))
            [Val (ErrorObj (status x) (statusText x) (responseText x))] #
          (case callbackKO (options this) of
             Some g \<Rightarrow> []
           | None \<Rightarrow> [Alert (ErrorObj (status x) (statusText x) (responseText x))]))
   \<and> (status x = 200 \<longrightarrow> JSON_parse (responseText x) = None \<longrightarrow>
        xhr_onload this x w = Inl (SyntaxError, w)
        \<and> new_effects w (xhr_onload this x w) = [])
   \<and> (status x = 200 \<longrightarrow> JSON_parse (responseText x) = Some v \<longrightarrow>
        xhr_onload this x w =
          Inr (case callbackOK (options this) of
                 Some g \<Rightarrow> emit (Call CallbackOK (Some g) [Val (Parsed v), Fn Insert]) w
               | None \<Rightarrow>
                   insert_image this (Parsed v)
                     (emit (Call CallbackOK None [Val (Parsed v), Fn Insert]) w)))
   \<and> (status x \<noteq> 200 \<longrightarrow>
        xhr_onload this x w =
          Inr (case callbackKO (options this) of
                 Some g \<Rightarrow>
                   emit (Call CallbackKO (Some g)
                           [Val (ErrorObj (status x) (statusText x) (responseText x))]) w
               | None \<Rightarrow>
                   emit (Alert (ErrorObj (status x) (statusText x) (responseText x)))
                     (emit (Call CallbackKO None
                              [Val (ErrorObj (status x) (statusText x) (responseText x))]) w)))"
proof (intro conjI impI)
  show "filter (is_call CallbackOK) (new_effects w (xhr_onload this x w)) \<noteq> [] \<longleftrightarrow>
      status x = 200 \<and> JSON_parse (responseText x) \<noteq> None"
  proof (cases "status x = 200")
    case True
    show ?thesis
    proof (cases "JSON_parse (responseText x)")
      case None
      with True show ?thesis
        by (simp add: xhr_onload_throw new_effects_def world_of_def)
    next
      case (Some v)
      with True show ?thesis
        by (simp add: xhr_onload_ok new_effects_callbackOK)
    qed
  next
    case False
    then show ?thesis
      by (simp add: xhr_onload_ko new_effects_callbackKO split: option.splits)
  qed
next
  assume "status x = 200" and "JSON_parse (responseText x) = Some v"
  then show "new_effects w (xhr_onload this x w) =
          Call CallbackOK (callbackOK (options this)) [Val (Parsed v), Fn Insert] #
          (case callbackOK (options this) of
             Some g \<Rightarrow> []
           | None \<Rightarrow> [InsertEmbed (insert_index this (editor w)) ''image'' (Parsed v) ''user''])"
    by (simp add: xhr_onload_ok new_effects_callbackOK)
next
  assume "status x \<noteq> 200"
  then show "new_effects w (xhr_onload this x w) =
          Call CallbackKO (callbackKO (options this))
            [Val (ErrorObj (status x) (statusText x) (responseText x))] #
          (case callbackKO (options this) of
             Some g \<Rightarrow> []
           | None \<Rightarrow> [Alert (ErrorObj (status x) (statusText x) (responseText x))])"
    by (simp add: xhr_onload_ko new_effects_callbackKO)
next
  assume a: "status x = 200" "JSON_parse (responseText x) = None"
  then show "xhr_onload this x w = Inl (SyntaxError, w)"
    by (simp add: xhr_onload_throw)
  from a show "new_effects w (xhr_onload this x w) = []"
    by (simp add: xhr_onload_throw new_effects_def world_of_def)
next
  assume "status x = 200" and "JSON_parse (responseText x) = Some v"
  then show "xhr_onload this x w =
          Inr (case callbackOK (options this) of
                 Some g \<Rightarrow> emit (Call CallbackOK (Some g) [Val (Parsed v), Fn Insert]) w
               | None \<Rightarrow>
                   insert_image this (Parsed v)
                     (emit (Call CallbackOK None [Val (Parsed v), Fn Insert]) w))"
    by (simp add: xhr_onload_ok callbackOK_resolved_Insert)
next
  assume "status x \<noteq> 200"
  then show "xhr_onload this x w =
          Inr (case callbackKO (options this) of
                 Some g \<Rightarrow>
                   emit (Call CallbackKO (Some g)
                           [Val (ErrorObj (status x) (statusText x) (responseText x))]) w
               | None \<Rightarrow>
                   emit (Alert (ErrorObj (status x) (statusText x) (responseText x)))
                     (emit (Call CallbackKO None
                              [Val (ErrorObj (status x) (statusText x) (responseText x))]) w))"
    by (simp add: xhr_onload_ko callbackKO_resolved_def uploadImageCallbackKO_def Let_def
        split: option.splits)
qed

theorem xhr_onload_callbacks_witness:
  "new_effects (start None 1)
     (xhr_onload (demo no_options) \<lparr>status = 404, statusText = ''Not Found'', responseText = ''no''\<rparr>
        (start None 1)) =
     [Call CallbackKO None [Val (ErrorObj 404 ''Not Found'' ''no'')],
      Alert (ErrorObj 404 ''Not Found'' ''no'')]
   \<and> new_effects (start None 1)
     (xhr_onload (demo (no_options\<lparr>callbackOK := Some (UserFn ''ok'')\<rparr>))
        \<lparr>status = 200, statusText = ''OK'', responseText = ''{\"url\":\"http://x/img.png\"}''\<rparr>
        (start None 1)) =
     [Call CallbackOK (Some (UserFn ''ok''))
        [Val (Parsed (JSON ''{\"url\":\"http://x/img.png\"}'')), Fn Insert]]
   \<and> xhr_onload (demo (no_options\<lparr>callbackKO := Some (UserFn ''ko'')\<rparr>))
        \<lparr>status = 200, statusText = ''OK'', responseText = ''Created''\<rparr> (start None 1) =
      Inl (SyntaxError, start None 1)"
proof -
  let ?ko = "\<lparr>status = 404, statusText = ''Not Found'', responseText = ''no''\<rparr>"
  let ?ok = "\<lparr>status = 200, statusText = ''OK'', responseText = ''{\"url\":\"http://x/img.png\"}''\<rparr>"
  let ?bad = "\<lparr>status = 200, statusText = ''OK'', responseText = ''Created''\<rparr>"
  let ?T = "demo (no_options\<lparr>callbackOK := Some (UserFn ''ok'')\<rparr>)"
  let ?K = "demo (no_options\<lparr>callbackKO := Some (UserFn ''ko'')\<rparr>)"
  have a: "status ?ko \<noteq> 200" by simp
  have b: "status ?ok = 200" by simp
  have c: "JSON_parse (responseText ?ok) = Some (JSON ''{\"url\":\"http://x/img.png\"}'')"
    by (simp add: json_url)
  have d: "callbackKO (options (demo no_options)) = None"
    by (simp add: demo_def no_options_def)
  have e: "callbackOK (options ?T) = Some (UserFn ''ok'')"
    by (simp add: demo_def no_options_def)
  have f: "status ?bad = 200" by simp
  have g: "JSON_parse (responseText ?bad) = None"
    by (simp add: not_json_plain)
  from xhr_onload_callbacks [of "start None 1" "demo no_options" ?ko] a
  have 1: "new_effects (start None 1) (xhr_onload (demo no_options) ?ko (start None 1)) =
          Call CallbackKO (callbackKO (options (demo no_options)))
            [Val (ErrorObj (status ?ko) (statusText ?ko) (responseText ?ko))] #
          (case callbackKO (options (demo no_options)) of
             Some g \<Rightarrow> []
           | None \<Rightarrow> [Alert (ErrorObj (status ?ko) (statusText ?ko) (responseText ?ko))])"
    by blast
  from xhr_onload_callbacks [of "start None 1" ?T ?ok] b c
  have 2: "new_effects (start None 1) (xhr_onload ?T ?ok (start None 1)) =
          Call CallbackOK (callbackOK (options ?T))
            [Val (Parsed (JSON ''{\"url\":\"http://x/img.png\"}'')), Fn Insert] #
          (case callbackOK (options ?T) of
             Some g \<Rightarrow> []
           | None \<Rightarrow> [InsertEmbed (insert_index ?T (editor (start None 1))) ''image''
                (Parsed (JSON ''{\"url\":\"http://x/img.png\"}'')) ''user''])"
    by blast
  from xhr_onload_callbacks [of "start None 1" ?K ?bad] f g
  have 3: "xhr_onload ?K ?bad (start None 1) = Inl (SyntaxError, start None 1)"
    by blast
  show ?thesis
    unfolding 1 2 3 d e by simp
qed

text \<open>
  C6. The claim is that the handler of the response never throws. With the default callbacks,
  a response with status 200 and an empty body makes it throw a \<^verbatim>\<open>SyntaxError\<close>.
\<close>

theorem xhr_onload_throws_on_empty_body:
  "xhr_onload (demo no_options) \<lparr>status = 200, statusText = ''OK'', responseText = ''''\<rparr>
     (start None 1) = Inl (SyntaxError, start None 1)"
  by (simp add: xhr_onload_def not_json_empty)

text \<open>
  C6, as the code has it. The handler throws exactly when the status is 200 and the body does
  not parse, and what it throws is the \<^verbatim>\<open>SyntaxError\<close>, with nothing done before. On every
  other status it returns, having called the failure callback once with the error object. On
  status 200 the failure callback is never called, also not when the parse throws.
\<close>

theorem xhr_onload_exception:
  "(isl (xhr_onload this x w) \<longleftrightarrow> status x = 200 \<and> JSON_parse (responseText x) = None)
   \<and> (isl (xhr_onload this x w) \<longrightarrow> xhr_onload this x w = Inl (SyntaxError, w))
   \<and> (status x \<noteq> 200 \<longrightarrow>
        filter (is_call CallbackKO) (new_effects w (xhr_onload this x w)) =
          [Call CallbackKO (callbackKO (options this))
             [Val (ErrorObj (status x) (statusText x) (responseText x))]])
   \<and> (status x = 200 \<longrightarrow> filter (is_call CallbackKO) (new_effects w (xhr_onload this x w)) = [])"
proof -
  have iff: "isl (xhr_onload this x w) \<longleftrightarrow> status x = 200 \<and> JSON_parse (responseText x) = None"
    by (cases "JSON_parse (responseText x)")
      (auto simp: xhr_onload_def callbackOK_resolved_Insert)
  have thrown: "xhr_onload this x w = Inl (SyntaxError, w)" if "isl (xhr_onload this x w)"
    using that iff by (simp add: xhr_onload_throw)
  have ko: "filter (is_call CallbackKO) (new_effects w (xhr_onload this x w)) =
          [Call CallbackKO (callbackKO (options this))
             [Val (ErrorObj (status x) (statusText x) (responseText x))]]" if "status x \<noteq> 200"
    using that by (simp add: xhr_onload_ko new_effects_callbackKO split: option.splits)
  have ok: "filter (is_call CallbackKO) (new_effects w (xhr_onload this x w)) = []" if "status x = 200"
  proof (cases "JSON_parse (responseText x)")
    case None
    with that show ?thesis
      by (simp add: xhr_onload_throw new_effects_def world_of_def)
  next
    case (Some v)
    with that show ?thesis
      by (simp add: xhr_onload_ok new_effects_callbackOK split: option.splits)
  qed
  from iff thrown ko ok show ?thesis by blast
qed

theorem xhr_onload_exception_witness:
  "\<not> isl (xhr_onload (demo no_options) \<lparr>status = 500, statusText = ''Server Error'', responseText = ''<html>''\<rparr> (start None 1))
   \<and> filter (is_call CallbackKO) (new_effects (start None 1)
        (xhr_onload (demo no_options) \<lparr>status = 500, statusText = ''Server Error'', responseText = ''<html>''\<rparr> (start None 1))) =
      [Call CallbackKO None [Val (ErrorObj 500 ''Server Error'' ''<html>'')]]"
proof -
  let ?x = "\<lparr>status = 500, statusText = ''Server Error'', responseText = ''<html>''\<rparr>"
  have a: "status ?x \<noteq> 200" by simp
  have d: "callbackKO (options (demo no_options)) = None"
    by (simp add: demo_def no_options_def)
  note t = xhr_onload_exception [of "demo no_options" ?x "start None 1"]
  from t a have 1: "\<not> isl (xhr_onload (demo no_options) ?x (start None 1))"
    by blast
  from t a have 2: "filter (is_call CallbackKO) (new_effects (start None 1)
        (xhr_onload (demo no_options) ?x (start None 1))) =
      [Call CallbackKO (callbackKO (options (demo no_options)))
         [Val (ErrorObj (status ?x) (statusText ?x) (responseText ?x))]]"
    by blast
  show ?thesis
    unfolding 2 d using 1 by simp
qed

subsection \<open>The method and the field name of the request\<close>

text \<open>
  C8. The claim is that a method or a field name that is given is used. Given as the empty
  string, each is replaced by its default: the request is a POST and the field is "image".
\<close>

theorem empty_method_and_name:
  "new_effects (start None 1)
     (sendToServer (demo (no_options\<lparr>url := Some ''/upload'', http_method := Some [], name := Some []\<rparr>))
        (Entry (File png)) (start None 1)) =
     [XhrOpen ''POST'' ''/upload'' True, XhrSend [(''image'', Entry (File png))]]"
  by (simp add: sendToServer_def demo_def no_options_def start_def emit_def truthy_def
      or_default_def new_effects_def world_of_def)

text \<open>
  C8, as the code has it. On the built-in network path the request is opened with the method
  of the options, or with POST when the method is absent or empty; the headers are set in
  order; the credentials flag is set when asked for; and the form that is sent has the file
  under the name of the options, or under "image" when the name is absent or empty, followed
  by the CSRF pair when there is one.
\<close>

theorem request_method_and_name:
  assumes "customUploader (options this) = None" and "truthy (url (options this))"
  shows "new_effects w (sendToServer this file w) =
     XhrOpen (case http_method (options this) of
                None \<Rightarrow> ''POST''
              | Some m \<Rightarrow> if m = [] then ''POST'' else m)
       (the (url (options this))) True #
     map (\<lambda>(index, v). XhrSetRequestHeader index v)
       (case headers (options this) of None \<Rightarrow> [] | Some h \<Rightarrow> h) @
     (if withCredentials (options this) = Some True then [XhrWithCredentials] else []) @
     [XhrSend ((case name (options this) of
                  None \<Rightarrow> ''image''
                | Some n \<Rightarrow> if n = [] then ''image'' else n, file) #
               (case csrf (options this) of
                  None \<Rightarrow> []
                | Some (token, hash) \<Rightarrow> [(token, Str hash)]))]"
proof -
  have d: "or_default x y = (case x of None \<Rightarrow> y | Some s \<Rightarrow> if s = [] then y else s)" for x y
    by (simp add: or_default_def truthy_def split: option.splits)
  show ?thesis
    by (simp add: sendToServer_request [OF assms] new_effects_def world_of_def d)
qed

theorem request_method_and_name_witness:
  "new_effects (start None 1)
     (sendToServer (demo (no_options\<lparr>url := Some ''/upload'', http_method := Some ''PUT'', name := Some ''picture''\<rparr>))
        (Entry (File png)) (start None 1)) =
     [XhrOpen ''PUT'' ''/upload'' True, XhrSend [(''picture'', Entry (File png))]]"
proof -
  let ?T = "demo (no_options\<lparr>url := Some ''/upload'', http_method := Some ''PUT'', name := Some ''picture''\<rparr>)"
  have a: "customUploader (options ?T) = None" by (simp add: demo_def no_options_def)
  have b: "truthy (url (options ?T))" by (simp add: demo_def no_options_def truthy_def)
  have c: "options ?T = no_options\<lparr>url := Some ''/upload'', http_method := Some ''PUT'', name := Some ''picture''\<rparr>"
    by (simp add: demo_def)
  show ?thesis
    unfolding request_method_and_name [OF a b, of "start None 1" "Entry (File png)"] c
    by (simp add: no_options_def)
qed

subsection \<open>Files that are not images\<close>

text \<open>
  C5. A file whose type does not start with \<^verbatim>\<open>image/\<close> goes nowhere. Chosen from the
  toolbar, it leaves one console warning and nothing else: no pre-send check, no send, no
  insertion, no alert, the editor as it was. In the list \<^verbatim>\<open>readFiles\<close> walks for drop and
  paste it makes no difference at all: the result is the one of the list without it, and a list
  of such entries leaves the world unchanged.
\<close>

theorem non_image_dropped:
  "(\<not> is_image (file_type f) \<longrightarrow>
      input_onchange this (f # fs) w = Inr (emit (ConsoleWarn ''You could only upload images.'') w))
   \<and> (\<not> is_image (entry_type e) \<longrightarrow>
      readFiles this (pre @ e # post) cb w = readFiles this (pre @ post) cb w)
   \<and> (list_all (\<lambda>e. \<not> is_image (entry_type e)) files \<longrightarrow> readFiles this files cb w = w)"
proof (intro conjI impI)
  assume "\<not> is_image (file_type f)"
  then show "input_onchange this (f # fs) w =
      Inr (emit (ConsoleWarn ''You could only upload images.'') w)"
    by (simp add: input_onchange_def)
next
  assume "\<not> is_image (entry_type e)"
  then show "readFiles this (pre @ e # post) cb w = readFiles this (pre @ post) cb w"
    by (simp add: readFiles_update)
next
  assume "list_all (\<lambda>e. \<not> is_image (entry_type e)) files"
  then have "filter (\<lambda>file. is_image (entry_type file) \<and> blob_of file \<noteq> None) files = []"
    by (simp add: list_all_iff filter_empty_conv)
  then show "readFiles this files cb w = w"
    by (simp add: readFiles_update)
qed

theorem non_image_dropped_witness:
  "input_onchange (demo no_options) [readme] (start None 1) =
     Inr \<lparr>editor = \<lparr>sel = None, len = 1\<rparr>, trace = [ConsoleWarn ''You could only upload images.'']\<rparr>
   \<and> readFiles (demo no_options) ([File png] @ File readme # []) SendToServer (start None 1) =
       readFiles (demo no_options) ([File png] @ []) SendToServer (start None 1)
   \<and> readFiles (demo no_options) [File readme, DataTransferItem ''text/html'' None] SendToServer
        (start None 1) = start None 1"
proof -
  have a: "\<not> is_image (file_type readme)"
    by (simp add: is_image_def readme_def)
  have b: "\<not> is_image (entry_type (File readme))"
    by (simp add: is_image_def readme_def)
  have c: "list_all (\<lambda>e. \<not> is_image (entry_type e)) [File readme, DataTransferItem ''text/html'' None]"
    by (simp add: is_image_def readme_def)
  from non_image_dropped [of readme "demo no_options" "[]" "start None 1" "File readme" "[File png]" "[]"
      SendToServer "[File readme, DataTransferItem ''text/html'' None]"] a b c
  have "input_onchange (demo no_options) [readme] (start None 1) =
      Inr (emit (ConsoleWarn ''You could only upload images.'') (start None 1))"
    and "readFiles (demo no_options) ([File png] @ File readme # []) SendToServer (start None 1) =
       readFiles (demo no_options) ([File png] @ []) SendToServer (start None 1)"
    and "readFiles (demo no_options) [File readme, DataTransferItem ''text/html'' None] SendToServer
        (start None 1) = start None 1"
    by blast+
  then show ?thesis
    by (simp add: emit_def start_def)
qed

subsection \<open>What \<^verbatim>\<open>readFiles\<close> hands on\<close>

text \<open>
  C10. On every list of entries, \<^verbatim>\<open>readFiles\<close> starts one read for each image entry whose
  blob is a \<^verbatim>\<open>Blob\<close>, in the order of the list, each with a handler that holds that very
  entry and the callback, and does nothing else; an image entry anywhere in a list adds its own
  read between those of the entries before it and after it. When a read has loaded, its result
  is not used (any two results give the same outcome): the first thing the handler does is
  call the pre-send check with the entry itself and the callback; a configured check gets
  just that call, and the default check passes the entry itself on to the callback. An entry
  whose blob is not a \<^verbatim>\<open>Blob\<close> makes no difference to \<^verbatim>\<open>readFiles\<close>: no read is started, so
  the callback is never reached for it.
\<close>

theorem readFiles_hands_on_the_entry:
  "readFiles this files cb w =
     w\<lparr>trace := trace w @
        map (\<lambda>file. ReadAsDataURL (the (blob_of file)) (OnloadCheck file cb))
          (filter (\<lambda>file. is_image (entry_type file) \<and> blob_of file \<noteq> None) files)\<rparr>
   \<and> (is_image (entry_type e) \<longrightarrow> blob_of e = Some b \<longrightarrow>
      readFiles this (pre @ e # post) cb w =
        readFiles this post cb
          (emit (ReadAsDataURL b (OnloadCheck e cb)) (readFiles this pre cb w)))
   \<and> (is_image (entry_type e) \<longrightarrow> blob_of e = Some b \<longrightarrow>
      readFiles this [e] cb w = emit (ReadAsDataURL b (OnloadCheck e cb)) w)
   \<and> reader_onload this (OnloadCheck e cb) r w = reader_onload this (OnloadCheck e cb) r' w
   \<and> take 1 (new_effects w (reader_onload this (OnloadCheck e cb) r w)) =
       [Call CheckBeforeSend (checkBeforeSend (options this)) [Val (Entry e), Fn cb]]
   \<and> (checkBeforeSend (options this) = Some g \<longrightarrow>
       reader_onload this (OnloadCheck e cb) r w =
         Inr (emit (Call CheckBeforeSend (Some g) [Val (Entry e), Fn cb]) w))
   \<and> (checkBeforeSend (options this) = None \<longrightarrow>
       reader_onload this (OnloadCheck e cb) r w =
         call this cb (Entry e) (emit (Call CheckBeforeSend None [Val (Entry e), Fn cb]) w))
   \<and> (blob_of e = None \<longrightarrow>
       readFiles this (pre @ e # post) cb w = readFiles this (pre @ post) cb w)"
proof (intro conjI impI)
  show "readFiles this files cb w =
     w\<lparr>trace := trace w @
        map (\<lambda>file. ReadAsDataURL (the (blob_of file)) (OnloadCheck file cb))
          (filter (\<lambda>file. is_image (entry_type file) \<and> blob_of file \<noteq> None) files)\<rparr>"
    by (rule readFiles_update)
next
  assume "is_image (entry_type e)" and "blob_of e = Some b"
  then show "readFiles this (pre @ e # post) cb w =
        readFiles this post cb
          (emit (ReadAsDataURL b (OnloadCheck e cb)) (readFiles this pre cb w))"
    by (simp add: readFiles_def)
next
  assume "is_image (entry_type e)" and "blob_of e = Some b"
  then show "readFiles this [e] cb w = emit (ReadAsDataURL b (OnloadCheck e cb)) w"
    by (simp add: readFiles_def)
next
  show "reader_onload this (OnloadCheck e cb) r w = reader_onload this (OnloadCheck e cb) r' w"
    by simp
next
  show "take 1 (new_effects w (reader_onload this (OnloadCheck e cb) r w)) =
       [Call CheckBeforeSend (checkBeforeSend (options this)) [Val (Entry e), Fn cb]]"
    by (simp only: reader_onload.simps checkBeforeSend_first)
next
  assume "checkBeforeSend (options this) = Some g"
  then show "reader_onload this (OnloadCheck e cb) r w =
         Inr (emit (Call CheckBeforeSend (Some g) [Val (Entry e), Fn cb]) w)"
    by (simp add: checkBeforeSend_resolved_eq)
next
  assume "checkBeforeSend (options this) = None"
  then show "reader_onload this (OnloadCheck e cb) r w =
         call this cb (Entry e) (emit (Call CheckBeforeSend None [Val (Entry e), Fn cb]) w)"
    by (simp add: checkBeforeSend_resolved_eq)
next
  assume "blob_of e = None"
  then show "readFiles this (pre @ e # post) cb w = readFiles this (pre @ post) cb w"
    by (simp add: readFiles_update)
qed

theorem readFiles_hands_on_the_entry_witness:
  "readFiles (demo no_options)
     ([File png] @ DataTransferItem ''image/png'' (Some png) # [File readme]) SendToServer (start None 1) =
     \<lparr>editor = \<lparr>sel = None, len = 1\<rparr>,
      trace = [ReadAsDataURL png (OnloadCheck (File png) SendToServer),
               ReadAsDataURL png (OnloadCheck (DataTransferItem ''image/png'' (Some png)) SendToServer)]\<rparr>
   \<and> reader_onload (demo no_options) (OnloadCheck (File png) SendToServer)
        ''data:image/png;base64,UE5H'' (start None 1) =
      Inr \<lparr>editor = \<lparr>sel = None, len = 1\<rparr>,
           trace = [Call CheckBeforeSend None [Val (Entry (File png)), Fn SendToServer],
                    ReadAsDataURL png OnloadSuccess]\<rparr>
   \<and> reader_onload (demo (no_options\<lparr>checkBeforeSend := Some (UserFn ''check'')\<rparr>))
        (OnloadCheck (File png) SendToServer) ''data:image/png;base64,UE5H'' (start None 1) =
      Inr \<lparr>editor = \<lparr>sel = None, len = 1\<rparr>,
           trace = [Call CheckBeforeSend (Some (UserFn ''check''))
                      [Val (Entry (File png)), Fn SendToServer]]\<rparr>
   \<and> readFiles (demo no_options) ([] @ DataTransferItem ''image/png'' None # []) SendToServer
        (start None 1) =
      readFiles (demo no_options) ([] @ []) SendToServer (start None 1)"
proof -
  let ?item = "DataTransferItem ''image/png'' (Some png)"
  let ?none = "DataTransferItem ''image/png'' None"
  let ?T = "demo no_options"
  let ?C = "demo (no_options\<lparr>checkBeforeSend := Some (UserFn ''check'')\<rparr>)"
  let ?W = "start None 1"
  have a: "is_image (entry_type ?item)" by (simp add: is_image_def)
  have b: "blob_of ?item = Some png" by simp
  have c: "checkBeforeSend (options ?T) = None" by (simp add: demo_def no_options_def)
  have cc: "checkBeforeSend (options ?C) = Some (UserFn ''check'')" by (simp add: demo_def no_options_def)
  have d: "blob_of ?none = None" by simp
  from readFiles_hands_on_the_entry [of ?T _ SendToServer ?W ?item png "[File png]" "[File readme]"] a b
  have 1: "readFiles ?T ([File png] @ ?item # [File readme]) SendToServer ?W =
      readFiles ?T [File readme] SendToServer
        (emit (ReadAsDataURL png (OnloadCheck ?item SendToServer)) (readFiles ?T [File png] SendToServer ?W))"
    by blast
  from readFiles_hands_on_the_entry [of ?T "[File png]" SendToServer ?W]
  have 6: "readFiles ?T [File png] SendToServer ?W =
     ?W\<lparr>trace := trace ?W @
        map (\<lambda>file. ReadAsDataURL (the (blob_of file)) (OnloadCheck file SendToServer))
          (filter (\<lambda>file. is_image (entry_type file) \<and> blob_of file \<noteq> None) [File png])\<rparr>"
    by blast
  from readFiles_hands_on_the_entry [of ?T "[File readme]" SendToServer]
  have 7: "readFiles ?T [File readme] SendToServer w =
     w\<lparr>trace := trace w @
        map (\<lambda>file. ReadAsDataURL (the (blob_of file)) (OnloadCheck file SendToServer))
          (filter (\<lambda>file. is_image (entry_type file) \<and> blob_of file \<noteq> None) [File readme])\<rparr>" for w
    by blast
  from readFiles_hands_on_the_entry [of ?T _ SendToServer ?W "File png" _ _ _
      "''data:image/png;base64,UE5H''"] c
  have 2: "reader_onload ?T (OnloadCheck (File png) SendToServer) ''data:image/png;base64,UE5H'' ?W =
      call ?T SendToServer (Entry (File png))
        (emit (Call CheckBeforeSend None [Val (Entry (File png)), Fn SendToServer]) ?W)"
    by blast
  from readFiles_hands_on_the_entry [of ?C _ SendToServer ?W "File png" _ _ _
      "''data:image/png;base64,UE5H''" _ "UserFn ''check''"] cc
  have 5: "reader_onload ?C (OnloadCheck (File png) SendToServer) ''data:image/png;base64,UE5H'' ?W =
      Inr (emit (Call CheckBeforeSend (Some (UserFn ''check'')) [Val (Entry (File png)), Fn SendToServer]) ?W)"
    by blast
  from readFiles_hands_on_the_entry [of ?T _ SendToServer ?W ?none _ "[]" "[]"] d
  have 3: "readFiles ?T ([] @ ?none # []) SendToServer ?W = readFiles ?T ([] @ []) SendToServer ?W"
    by blast
  have 4: "call ?T SendToServer (Entry (File png)) w = Inr (emit (ReadAsDataURL png OnloadSuccess) w)"
    for w
    by (simp add: sendToServer_def demo_def no_options_def truthy_def)
  show ?thesis
    unfolding 1 6 7 2 5 4 using 3
    by (simp add: emit_def start_def is_image_def png_def readme_def)
qed

subsection \<open>Paste\<close>




end
